theory Spec2Isabelle
  imports Main
begin

section \<open>Package gcs: uploading gzip-compressed files to a storage bucket\<close>

text \<open>
  The package \<^verbatim>\<open>gcs\<close> (file \<^verbatim>\<open>gcs/gcs.go\<close>) has four functions: \<^verbatim>\<open>Connect\<close>,
  \<^verbatim>\<open>createClient\<close>, \<^verbatim>\<open>setBucket\<close> and \<^verbatim>\<open>Upload\<close>. They act on two package-level
  variables (\<^verbatim>\<open>singleton\<close>, \<^verbatim>\<open>once\<close>) and on external collaborators: the process
  environment, the file system, the console, the storage service and the gzip encoder.
  All of that is one explicit state, the record \<open>world\<close>, which every function takes and
  returns updated. A Go \<^verbatim>\<open>error\<close> result is an \<open>error option\<close> (\<open>None\<close> is \<^verbatim>\<open>nil\<close>);
  \<^verbatim>\<open>os.Exit\<close> and a nil-pointer dereference are the results \<open>Exit\<close> and \<open>Panic\<close>.
\<close>

subsection \<open>Errors and results\<close>

text \<open>
  \<^verbatim>\<open>storage.ErrBucketNotExist\<close> is a sentinel value that \<^verbatim>\<open>setBucket\<close> compares by
  identity; every other error is identified by its message.
\<close>

datatype error = ErrBucketNotExist | Err string

fun error_string :: "error \<Rightarrow> string" where
  "error_string ErrBucketNotExist = ''storage: bucket doesn't exist''"
| "error_string (Err msg) = msg"

datatype 'a result = Ret 'a | Exit int | Panic

subsection \<open>Data\<close>

datatype Context = Background

record BucketHandle =
  bh_client :: nat
  bh_name :: string

text \<open>The struct \<^verbatim>\<open>gcsClient\<close>; a storage client is identified by its number.\<close>

record gcsClient =
  projectID :: string
  bucketName :: string
  bucket :: "BucketHandle option"
  client :: "nat option"
  ctx :: "Context option"

text \<open>
  The object write stream \<^verbatim>\<open>*storage.Writer\<close>: the object it writes, the two attributes
  that \<^verbatim>\<open>Upload\<close> assigns, and the bytes it has received.
\<close>

record Writer =
  wr_bucket :: string
  wr_object :: string
  ContentType :: string
  ContentEncoding :: string
  wr_data :: string

text \<open>
  The encoder \<^verbatim>\<open>*gzip.Writer\<close>: the stream it wraps and the uncompressed bytes it has
  accepted.
\<close>

record gzipWriter =
  z_dst :: Writer
  z_input :: string

record object =
  ob_type :: string
  ob_encoding :: string
  ob_data :: string

text \<open>The calls issued to the storage client library and to the encoder.\<close>

datatype call =
    NewClientCall
  | AttrsCall string
  | CreateCall string string
  | NewWriterCall string string
  | GzipNewWriterCall Writer
  | GzipWriteCall string
  | GzipCloseCall
  | WriterCloseCall Writer

text \<open>
  The state of the process and of its collaborators.
  \<^item> \<open>singleton\<close>, \<open>once\<close>: the two package-level variables; \<open>nhandles\<close> counts the
    \<^verbatim>\<open>gcsClient\<close> structs allocated so far.
  \<^item> \<open>environ\<close>: the process environment; \<open>files\<close>: what \<^verbatim>\<open>ioutil.ReadFile\<close> returns for
    each path.
  \<^item> \<open>fault\<close>, \<open>ticks\<close>: the collaborators may fail at any call (permissions, network).
    \<open>ticks\<close> counts the fallible external calls made so far, and \<open>fault k\<close> is the error
    with which call number \<open>k\<close> fails, \<open>None\<close> when it goes through.
  \<^item> \<open>gz\<close>: the gzip stream of an input, a black box; \<open>gz_partial\<close>: the part of that
    stream which has reached the underlying writer when closing the encoder fails.
  \<^item> \<open>nclients\<close>: the storage clients constructed so far; \<open>buckets\<close>: the buckets of the
    service with their projects; \<open>objects\<close>: the finalized objects by bucket and name.
  \<^item> \<open>calls\<close>: the log of library calls, each with the error it returned, in order;
    \<open>stdout\<close>, \<open>stderr\<close>: the console, one entry
    per print statement.
\<close>

record world =
  singleton :: "gcsClient option"
  once :: bool
  nhandles :: nat
  environ :: "string \<Rightarrow> string option"
  files :: "string \<Rightarrow> error + string"
  fault :: "nat \<Rightarrow> error option"
  ticks :: nat
  gz :: "string \<Rightarrow> string"
  gz_partial :: "string \<Rightarrow> string"
  nclients :: nat
  buckets :: "string \<Rightarrow> string option"
  objects :: "string \<times> string \<Rightarrow> object option"
  calls :: "(call \<times> error option) list"
  stdout :: "string list"
  stderr :: "string list"

subsection \<open>The standard library: environment, console, paths\<close>

text \<open>\<^verbatim>\<open>os.Getenv\<close> returns the empty string for a variable that is not set.\<close>

definition Getenv :: "string \<Rightarrow> world \<Rightarrow> string" where
  "Getenv key w = (case environ w key of None \<Rightarrow> '''' | Some v \<Rightarrow> v)"

definition print_out :: "string \<Rightarrow> world \<Rightarrow> world" where
  "print_out s w = w\<lparr>stdout := stdout w @ [s]\<rparr>"

definition print_err :: "string \<Rightarrow> world \<Rightarrow> world" where
  "print_err s w = w\<lparr>stderr := stderr w @ [s]\<rparr>"

text \<open>The verb \<^verbatim>\<open>%d\<close> of \<^verbatim>\<open>fmt.Printf\<close> on a number that is not negative.\<close>

fun decimal :: "nat \<Rightarrow> string" where
  "decimal n =
     (if n < 10 then [''0123456789'' ! n]
      else decimal (n div 10) @ [''0123456789'' ! (n mod 10)])"

declare decimal.simps [simp del]

text \<open>
  \<^verbatim>\<open>path.Base\<close> of the Go standard library: the empty path gives \<^verbatim>\<open>"."\<close>, trailing
  slashes are removed, everything up to the last slash is removed, and a path of slashes
  only gives \<^verbatim>\<open>"/"\<close>. The first loop shortens the path from its end; the second one
  (\<^verbatim>\<open>lastSlash\<close>) runs an index \<^verbatim>\<open>i\<close> down from \<^verbatim>\<open>len(s) - 1\<close> to \<^verbatim>\<open>-1\<close>: the
  recursion is on \<^verbatim>\<open>i + 1\<close>, a natural number, and returns \<^verbatim>\<open>i + 1\<close>.
\<close>

function stripTrailingSlashes :: "string \<Rightarrow> string" where
  "stripTrailingSlashes p =
     (if length p > 0 \<and> p ! (length p - 1) = CHR ''/''
      then stripTrailingSlashes (take (length p - 1) p) else p)"
  by pat_completeness auto
termination
  by (relation "measure length") auto

declare stripTrailingSlashes.simps [simp del]

primrec lastSlash_loop :: "string \<Rightarrow> nat \<Rightarrow> nat" where
  "lastSlash_loop s 0 = 0"
| "lastSlash_loop s (Suc i) = (if s ! i \<noteq> CHR ''/'' then lastSlash_loop s i else Suc i)"

definition Base :: "string \<Rightarrow> string" where
  "Base path =
     (if path = '''' then ''.''
      else let path1 = stripTrailingSlashes path;
               path2 = drop (lastSlash_loop path1 (length path1)) path1
           in if path2 = '''' then ''/'' else path2)"

text \<open>
  \<^verbatim>\<open>path.Ext\<close>: the index \<^verbatim>\<open>i\<close> runs down from \<^verbatim>\<open>len(path) - 1\<close> while
  \<^verbatim>\<open>path[i]\<close> is not a slash, and the suffix from the first dot met is returned; the
  recursion is on \<^verbatim>\<open>i + 1\<close> again.
\<close>

primrec Ext_loop :: "string \<Rightarrow> nat \<Rightarrow> string" where
  "Ext_loop path 0 = ''''"
| "Ext_loop path (Suc i) =
     (if path ! i \<noteq> CHR ''/''
      then (if path ! i = CHR ''.'' then drop i path else Ext_loop path i)
      else '''')"

definition Ext :: "string \<Rightarrow> string" where
  "Ext path = Ext_loop path (length path)"

subsection \<open>The storage client library and the encoder\<close>

text \<open>
  Each call that goes to the service or writes to a stream draws its outcome from
  \<open>fault\<close>, and is logged with its result. A call that does not fail behaves as the
  service does: \<^verbatim>\<open>Attrs\<close> answers \<^verbatim>\<open>ErrBucketNotExist\<close> for a bucket that is not there,
  \<^verbatim>\<open>Create\<close> refuses a name that is taken and adds the bucket otherwise, closing a
  write stream finalizes the object with the stream's attributes and bytes.
\<close>

definition draw :: "world \<Rightarrow> error option \<times> world" where
  "draw w = (fault w (ticks w), w\<lparr>ticks := Suc (ticks w)\<rparr>)"

definition log_call :: "call \<Rightarrow> error option \<Rightarrow> world \<Rightarrow> world" where
  "log_call c r w = w\<lparr>calls := calls w @ [(c, r)]\<rparr>"

definition storage_NewClient :: "world \<Rightarrow> (error + nat) \<times> world" where
  "storage_NewClient w =
     (case draw w of
        (Some e, w') \<Rightarrow> (Inl e, log_call NewClientCall (Some e) w')
      | (None, w') \<Rightarrow>
          (Inr (nclients w'), log_call NewClientCall None (w'\<lparr>nclients := Suc (nclients w')\<rparr>)))"

definition Client_Bucket :: "nat \<Rightarrow> string \<Rightarrow> BucketHandle" where
  "Client_Bucket c name = \<lparr>bh_client = c, bh_name = name\<rparr>"

definition Bucket_Attrs :: "BucketHandle \<Rightarrow> world \<Rightarrow> error option \<times> world" where
  "Bucket_Attrs b w =
     (case draw w of
        (Some e, w') \<Rightarrow> (Some e, log_call (AttrsCall (bh_name b)) (Some e) w')
      | (None, w') \<Rightarrow>
          (case buckets w' (bh_name b) of
             None \<Rightarrow>
               (Some ErrBucketNotExist, log_call (AttrsCall (bh_name b)) (Some ErrBucketNotExist) w')
           | Some p \<Rightarrow> (None, log_call (AttrsCall (bh_name b)) None w')))"

definition Bucket_Create :: "BucketHandle \<Rightarrow> string \<Rightarrow> world \<Rightarrow> error option \<times> world" where
  "Bucket_Create b project w =
     (case draw w of
        (Some e, w') \<Rightarrow> (Some e, log_call (CreateCall (bh_name b) project) (Some e) w')
      | (None, w') \<Rightarrow>
          (case buckets w' (bh_name b) of
             Some p \<Rightarrow>
               (Some (Err ''googleapi: Error 409: conflict''),
                log_call (CreateCall (bh_name b) project)
                  (Some (Err ''googleapi: Error 409: conflict'')) w')
           | None \<Rightarrow>
               (None,
                log_call (CreateCall (bh_name b) project) None
                  (w'\<lparr>buckets := (buckets w')(bh_name b \<mapsto> project)\<rparr>))))"

definition Object_NewWriter :: "BucketHandle \<Rightarrow> string \<Rightarrow> world \<Rightarrow> Writer \<times> world" where
  "Object_NewWriter b name w =
     (\<lparr>wr_bucket = bh_name b, wr_object = name, ContentType = '''', ContentEncoding = '''',
       wr_data = ''''\<rparr>,
      log_call (NewWriterCall (bh_name b) name) None w)"

definition Writer_Close :: "Writer \<Rightarrow> world \<Rightarrow> error option \<times> world" where
  "Writer_Close wc w =
     (case draw w of
        (Some e, w') \<Rightarrow> (Some e, log_call (WriterCloseCall wc) (Some e) w')
      | (None, w') \<Rightarrow>
          (None,
           log_call (WriterCloseCall wc) None
             (w'\<lparr>objects := (objects w')((wr_bucket wc, wr_object wc) \<mapsto>
                    \<lparr>ob_type = ContentType wc, ob_encoding = ContentEncoding wc,
                     ob_data = wr_data wc\<rparr>)\<rparr>)))"

text \<open>
  The encoder buffers: \<^verbatim>\<open>Write\<close> accepts the whole slice or fails, and \<^verbatim>\<open>Close\<close>
  flushes the gzip stream of everything accepted into the wrapped stream. When \<^verbatim>\<open>Close\<close>
  fails, only \<open>gz_partial\<close> of it has arrived there.
\<close>

definition gzip_NewWriter :: "Writer \<Rightarrow> world \<Rightarrow> gzipWriter \<times> world" where
  "gzip_NewWriter wc w = (\<lparr>z_dst = wc, z_input = ''''\<rparr>, log_call (GzipNewWriterCall wc) None w)"

definition gzip_Write :: "gzipWriter \<Rightarrow> string \<Rightarrow> world \<Rightarrow> (error + nat) \<times> gzipWriter \<times> world" where
  "gzip_Write z p w =
     (case draw w of
        (Some e, w') \<Rightarrow> (Inl e, z, log_call (GzipWriteCall p) (Some e) w')
      | (None, w') \<Rightarrow>
          (Inr (length p), z\<lparr>z_input := z_input z @ p\<rparr>, log_call (GzipWriteCall p) None w'))"

definition gzip_Close :: "gzipWriter \<Rightarrow> world \<Rightarrow> error option \<times> gzipWriter \<times> world" where
  "gzip_Close z w =
     (case draw w of
        (Some e, w') \<Rightarrow>
          (Some e,
           z\<lparr>z_dst := (z_dst z)\<lparr>wr_data := wr_data (z_dst z) @ gz_partial w' (z_input z)\<rparr>\<rparr>,
           log_call GzipCloseCall (Some e) w')
      | (None, w') \<Rightarrow>
          (None,
           z\<lparr>z_dst := (z_dst z)\<lparr>wr_data := wr_data (z_dst z) @ gz w' (z_input z)\<rparr>\<rparr>,
           log_call GzipCloseCall None w'))"

subsection \<open>The package\<close>

text \<open>
  \<^verbatim>\<open>createClient\<close>: \<^verbatim>\<open>once.Do\<close> runs its function on the first call only. The result is
  the pointer \<^verbatim>\<open>singleton\<close>, so what the caller writes through it is written to the
  singleton: the model returns the world, and the caller updates \<open>singleton\<close> there.
\<close>

definition createClient :: "world \<Rightarrow> world" where
  "createClient w =
     (if once w then w
      else w\<lparr>once := True, nhandles := Suc (nhandles w),
             singleton := Some \<lparr>projectID = '''', bucketName = '''', bucket = None,
                                client = None, ctx = Some Background\<rparr>\<rparr>)"

definition Connect :: "world \<Rightarrow> unit result \<times> world" where
  "Connect w =
     (let projectID' = Getenv ''GOOGLE_CLOUD_PROJECT'' w in
      if projectID' = ''''
      then (Exit 1, print_err ''GOOGLE_CLOUD_PROJECT environment variable must be set.\<newline>'' w)
      else
        let gcsCredentials = Getenv ''GOOGLE_APPLICATION_CREDENTIALS'' w in
        if gcsCredentials = ''''
        then (Exit 1,
              print_err ''GOOGLE_APPLICATION_CREDENTIALS environment variable must be set.\<newline>'' w)
        else
          let w1 = createClient w in
          (case singleton w1 of
             None \<Rightarrow> (Panic, w1)
           | Some gcs \<Rightarrow>
               let gcs1 = gcs\<lparr>projectID := projectID'\<rparr>;
                   w2 = w1\<lparr>singleton := Some gcs1\<rparr>
               in (case storage_NewClient w2 of
                     (Inl err, w3) \<Rightarrow>
                       (Exit 1,
                        print_err (''Unable to create GCS Client: '' @ error_string err @ ''\<newline>'') w3)
                   | (Inr client', w3) \<Rightarrow>
                       (Ret (), w3\<lparr>singleton := Some (gcs1\<lparr>client := Some client'\<rparr>)\<rparr>))))"

text \<open>
  \<^verbatim>\<open>setBucket\<close>: \<^verbatim>\<open>singleton.client.Bucket(name)\<close> and the calls on the handle
  dereference \<^verbatim>\<open>singleton\<close> and its client, which panics when either is nil.
\<close>

definition setBucket :: "string \<Rightarrow> world \<Rightarrow> error option result \<times> world" where
  "setBucket name w =
     (case singleton w of
        None \<Rightarrow> (Panic, w)
      | Some s \<Rightarrow>
          (case client s of
             None \<Rightarrow> (Panic, w)
           | Some c \<Rightarrow>
               let b = Client_Bucket c name in
               (case Bucket_Attrs b w of
                  (Some err, w1) \<Rightarrow>
                    if err = ErrBucketNotExist
                    then
                      let w2 = print_out (''Creating bucket '' @ name @ ''\<newline>'') w1 in
                      (case Bucket_Create b (projectID s) w2 of
                         (Some err', w3) \<Rightarrow>
                           (Ret (Some err'),
                            print_out (''Error creating bucket '' @ error_string err' @ ''\<newline>'') w3)
                       | (None, w3) \<Rightarrow>
                           (Ret None, w3\<lparr>singleton := Some (s\<lparr>bucket := Some b\<rparr>)\<rparr>))
                    else (Ret (Some err), print_out (error_string err @ ''\<newline>'') w1)
                | (None, w1) \<Rightarrow>
                    (Ret None, w1\<lparr>singleton := Some (s\<lparr>bucket := Some b\<rparr>)\<rparr>))))"

text \<open>Lines 109 to 111 of \<^verbatim>\<open>Upload\<close>: the name of the destination object.\<close>

definition objectName :: "string \<Rightarrow> string" where
  "objectName filename =
     (let filename' = Base filename;
          ext = Ext filename'
      in take (length filename' - length ext) filename' @ ''.gzip'')"

definition Upload :: "string \<Rightarrow> string \<Rightarrow> world \<Rightarrow> error option result \<times> world" where
  "Upload bkt filename w =
     (case setBucket bkt w of
        (Panic, w1) \<Rightarrow> (Panic, w1)
      | (Exit n, w1) \<Rightarrow> (Exit n, w1)
      | (Ret (Some err), w1) \<Rightarrow>
          (Ret (Some err), print_out (''GCS: Error setting bucket '' @ error_string err @ ''\<newline>'') w1)
      | (Ret None, w1) \<Rightarrow>
          (case files w1 filename of
             Inl err \<Rightarrow>
               (Ret (Some err),
                print_out (''GCS: Error reading file for upload '' @ error_string err @ ''\<newline>'') w1)
           | Inr data \<Rightarrow>
               let w2 = print_out (''GCS: Object name '' @ objectName filename @ ''\<newline>'') w1 in
               (case singleton w2 of
                  None \<Rightarrow> (Panic, w2)
                | Some s \<Rightarrow>
                    (case bucket s of
                       None \<Rightarrow> (Panic, w2)
                     | Some b \<Rightarrow>
                         (case Object_NewWriter b (objectName filename) w2 of
                            (wc0, w3) \<Rightarrow>
                              let wc1 = wc0\<lparr>ContentType := ''text/plain''\<rparr>;
                                  wc = wc1\<lparr>ContentEncoding := ''gzip''\<rparr>;
                                  w4 = print_out ''GCS: Successfully created gcs writer\<newline>'' w3
                              in (case gzip_NewWriter wc w4 of
                                    (zWriter, w5) \<Rightarrow>
                                      (case gzip_Write zWriter data w5 of
                                         (Inl err, zWriter1, w6) \<Rightarrow>
                                           (Ret (Some err),
                                            print_out (''GCS: Error compressing file '' @ error_string err @ ''\<newline>'') w6)
                                       | (Inr nBytes, zWriter1, w6) \<Rightarrow>
                                           (case gzip_Close zWriter1 w6 of
                                              (unchecked, zWriter2, w7) \<Rightarrow>
                                                let w8 = print_out (''GCS: Wrote '' @ decimal nBytes @ '' bytes\<newline>'') w7
                                                in (case Writer_Close (z_dst zWriter2) w8 of
                                                      (Some err, w9) \<Rightarrow>
                                                        (Ret (Some err),
                                                         print_out (''GCS: Error on context writer close ''
                                                                    @ error_string err @ ''\<newline>'') w9)
                                                    | (None, w9) \<Rightarrow> (Ret None, w9))))))))))"

subsection \<open>Vocabulary of the properties\<close>

text \<open>The calls logged between two states of the world.\<close>

definition new_calls :: "world \<Rightarrow> world \<Rightarrow> (call \<times> error option) list" where
  "new_calls w w' = drop (length (calls w)) (calls w')"

text \<open>
  The write stream as \<^verbatim>\<open>Upload\<close> hands it to the encoder and closes it: the object of
  the bound bucket, the two attributes assigned, and the bytes received.
\<close>

definition upload_stream :: "string \<Rightarrow> string \<Rightarrow> string \<Rightarrow> Writer" where
  "upload_stream bkt name d =
     \<lparr>wr_bucket = bkt, wr_object = name, ContentType = ''text/plain'', ContentEncoding = ''gzip'',
      wr_data = d\<rparr>"

text \<open>
  The object name in the words of the specification. The base name of a path is its
  last element, trailing slashes ignored (\<^verbatim>\<open>"."\<close> for the empty path and \<^verbatim>\<open>"/"\<close> for a
  path of slashes only, as \<^verbatim>\<open>path.Base\<close> documents). The extension of a name is its
  suffix from the last dot on; stripping it keeps what stands before that dot.
\<close>

definition spec_base_name :: "string \<Rightarrow> string" where
  "spec_base_name p =
     (let q = dropWhile (\<lambda>c. c = CHR ''/'') (rev p)
      in if p = [] then ''.'' else if q = [] then ''/''
         else rev (takeWhile (\<lambda>c. c \<noteq> CHR ''/'') q))"

definition spec_strip_ext :: "string \<Rightarrow> string" where
  "spec_strip_ext b =
     (if CHR ''.'' \<in> set b
      then rev (tl (dropWhile (\<lambda>c. c \<noteq> CHR ''.'') (rev b))) else b)"

subsection \<open>Concrete worlds\<close>

text \<open>
  A process at its start, with a file system that holds the one file \<^verbatim>\<open>notes.txt\<close>,
  an empty storage service, and a codec small enough to compute with: the stream of
  \<open>d\<close> is \<open>d\<close> between a header and a trailer, and only the header has been written
  when closing the encoder fails. \<open>fault_at n r\<close> lets external call number \<open>n\<close> return
  \<open>r\<close> and every other call go through; \<open>started flt\<close> is the process after
  \<^verbatim>\<open>Connect\<close> in a complete environment.
\<close>

definition toy_gz :: "string \<Rightarrow> string" where
  "toy_gz d = ''GZ'' @ d @ ''!''"

definition toy_partial :: "string \<Rightarrow> string" where
  "toy_partial d = ''GZ''"

definition toy_gunzip :: "string \<Rightarrow> string option" where
  "toy_gunzip s = (if take 2 s = ''GZ'' \<and> 2 < length s then Some (butlast (drop 2 s)) else None)"

definition fault_at :: "nat \<Rightarrow> error option \<Rightarrow> nat \<Rightarrow> error option" where
  "fault_at n r k = (if k = n then r else None)"

definition no_fault :: "nat \<Rightarrow> error option" where
  "no_fault = fault_at 0 None"

text \<open>
  Two failures: the existence check (call number 1 after \<^verbatim>\<open>Connect\<close>) is refused, and
  closing the encoder (call number 4 of an upload into a new bucket) fails.
\<close>

definition attrs_forbidden :: "nat \<Rightarrow> error option" where
  "attrs_forbidden = fault_at 1 (Some (Err ''googleapi: Error 403: Forbidden''))"




definition env_ok :: "string \<Rightarrow> string option" where
  "env_ok = [''GOOGLE_CLOUD_PROJECT'' \<mapsto> ''proj'',
             ''GOOGLE_APPLICATION_CREDENTIALS'' \<mapsto> ''/key.json'']"

definition fs1 :: "string \<Rightarrow> error + string" where
  "fs1 path = (if path = ''notes.txt'' then Inr ''hello''
               else Inl (Err (''open '' @ path @ '': no such file or directory'')))"

definition fresh :: "(string \<Rightarrow> string option) \<Rightarrow> (nat \<Rightarrow> error option) \<Rightarrow> world" where
  "fresh env flt =
     \<lparr>singleton = None, once = False, nhandles = 0, environ = env, files = fs1, fault = flt,
      ticks = 0, gz = toy_gz, gz_partial = toy_partial, nclients = 0,
      buckets = Map.empty, objects = Map.empty, calls = [], stdout = [], stderr = []\<rparr>"

definition started :: "(nat \<Rightarrow> error option) \<Rightarrow> world" where
  "started flt = snd (Connect (fresh env_ok flt))"

section \<open>Properties\<close>

subsection \<open>Paths\<close>

lemma stripTrailingSlashes_rev:
  "stripTrailingSlashes p = rev (dropWhile (\<lambda>c. c = CHR ''/'') (rev p))"
proof (induction p rule: stripTrailingSlashes.induct)
  case (1 p)
  show ?case
  proof (cases "p = []")
    case True
    then show ?thesis by (simp add: stripTrailingSlashes.simps)
  next
    case False
    then obtain q x where p: "p = q @ [x]"
      by (metis rev_exhaust)
    show ?thesis
    proof (cases "x = CHR ''/''")
      case True
      with p 1 have "stripTrailingSlashes q = rev (dropWhile (\<lambda>c. c = CHR ''/'') (rev q))"
        by simp
      with p True show ?thesis
        by (subst stripTrailingSlashes.simps) simp
    next
      case False
      with p show ?thesis
        by (subst stripTrailingSlashes.simps) simp
    qed
  qed
qed

lemma lastSlash_loop_le: "lastSlash_loop s n \<le> n"
  by (induction n) auto

lemma lastSlash_loop_drop:
  "n \<le> length s \<Longrightarrow>
   drop (lastSlash_loop s n) (take n s) = rev (takeWhile (\<lambda>c. c \<noteq> CHR ''/'') (rev (take n s)))"
proof (induction n)
  case 0
  then show ?case by simp
next
  case (Suc n)
  then have n: "n < length s"
    and IH: "drop (lastSlash_loop s n) (take n s) =
             rev (takeWhile (\<lambda>c. c \<noteq> CHR ''/'') (rev (take n s)))"
    by auto
  have t: "take (Suc n) s = take n s @ [s ! n]"
    using n by (simp add: take_Suc_conv_app_nth)
  show ?case
  proof (cases "s ! n = CHR ''/''")
    case True
    then show ?thesis using n by (simp add: t)
  next
    case False
    have "lastSlash_loop s n \<le> length (take n s)"
      using lastSlash_loop_le [of s n] n by simp
    then show ?thesis using False IH n by (simp add: t)
  qed
qed

lemma Base_spec: "Base p = spec_base_name p"
proof -
  define q where "q = stripTrailingSlashes p"
  define r where "r = dropWhile (\<lambda>c. c = CHR ''/'') (rev p)"
  have q: "q = rev r"
    by (simp add: q_def r_def stripTrailingSlashes_rev)
  have "drop (lastSlash_loop q (length q)) q = rev (takeWhile (\<lambda>c. c \<noteq> CHR ''/'') (rev q))"
    using lastSlash_loop_drop [of "length q" q] by simp
  then have d: "drop (lastSlash_loop q (length q)) q = rev (takeWhile (\<lambda>c. c \<noteq> CHR ''/'') r)"
    by (simp add: q)
  have "r \<noteq> [] \<Longrightarrow> hd r \<noteq> CHR ''/''"
    unfolding r_def by (rule hd_dropWhile)
  then have ne: "(takeWhile (\<lambda>c. c \<noteq> CHR ''/'') r = []) = (r = [])"
    by (cases r) auto
  show ?thesis
    unfolding Base_def spec_base_name_def Let_def q_def [symmetric] r_def [symmetric] d
    by (simp add: ne)
qed

lemma Ext_loop_no_dot:
  "n \<le> length p \<Longrightarrow> CHR ''.'' \<notin> set (take n p) \<Longrightarrow> Ext_loop p n = []"
proof (induction n)
  case 0
  then show ?case by simp
next
  case (Suc n)
  then have "take (Suc n) p = take n p @ [p ! n]"
    by (simp add: take_Suc_conv_app_nth)
  with Suc show ?case by auto
qed

lemma Ext_loop_last_dot:
  "p = s @ CHR ''.'' # e \<Longrightarrow> k \<le> length e \<Longrightarrow> CHR ''.'' \<notin> set e \<Longrightarrow> CHR ''/'' \<notin> set e \<Longrightarrow>
   Ext_loop p (Suc (length s + k)) = CHR ''.'' # e"
proof (induction k)
  case 0
  then show ?case by simp
next
  case (Suc k)
  then have "p ! (Suc (length s + k)) = e ! k"
    by (simp add: nth_append)
  moreover have "e ! k \<in> set e"
    using Suc.prems by (intro nth_mem) simp
  then have "e ! k \<noteq> CHR ''.''" and "e ! k \<noteq> CHR ''/''"
    using Suc.prems by metis+
  moreover have "Ext_loop p (Suc (length s + k)) = CHR ''.'' # e"
    using Suc.IH Suc.prems by simp
  ultimately show ?case by simp
qed

lemma Ext_no_dot: "CHR ''.'' \<notin> set b \<Longrightarrow> Ext b = []"
  unfolding Ext_def using Ext_loop_no_dot [of "length b" b] by simp

lemma Ext_last_dot:
  "CHR ''.'' \<notin> set e \<Longrightarrow> CHR ''/'' \<notin> set e \<Longrightarrow> Ext (s @ CHR ''.'' # e) = CHR ''.'' # e"
  unfolding Ext_def using Ext_loop_last_dot [of "s @ CHR ''.'' # e" s e "length e"] by simp

lemma strip_ext_spec:
  assumes "CHR ''/'' \<notin> set b"
  shows "take (length b - length (Ext b)) b = spec_strip_ext b"
proof (cases "CHR ''.'' \<in> set b")
  case False
  then show ?thesis by (simp add: Ext_no_dot spec_strip_ext_def)
next
  case True
  then obtain s e where b: "b = s @ CHR ''.'' # e" and e: "CHR ''.'' \<notin> set e"
    by (meson split_list_last)
  from assms b have "CHR ''/'' \<notin> set e" by simp
  with e have "Ext b = CHR ''.'' # e" unfolding b by (rule Ext_last_dot)
  moreover have "dropWhile (\<lambda>c. c \<noteq> CHR ''.'') (rev e @ CHR ''.'' # rev s) = CHR ''.'' # rev s"
    using e by (subst dropWhile_append2) auto
  ultimately show ?thesis
    using True e by (simp add: spec_strip_ext_def b)
qed

lemma spec_base_name_slash:
  "spec_base_name p = ''/'' \<or> CHR ''/'' \<notin> set (spec_base_name p)"
  by (auto simp: spec_base_name_def Let_def dest: set_takeWhileD)

subsection \<open>Object names\<close>

text \<open>
  C2. For every input file path, the destination object name is the base name of the
  path (directory components stripped) with its extension removed and \<^verbatim>\<open>.gzip\<close>
  appended; \<^verbatim>\<open>data.csv\<close> gives \<^verbatim>\<open>data.gzip\<close> and \<^verbatim>\<open>README\<close> gives \<^verbatim>\<open>README.gzip\<close>.
\<close>

theorem objectName_strips_directory_and_extension:
  "objectName p = spec_strip_ext (spec_base_name p) @ ''.gzip'' \<and>
   objectName ''data.csv'' = ''data.gzip'' \<and>
   objectName ''README'' = ''README.gzip''"
proof -
  have "take (length (Base p) - length (Ext (Base p))) (Base p) = spec_strip_ext (Base p)"
  proof (cases "Base p = ''/''")
    case True
    then show ?thesis by (simp add: Ext_def spec_strip_ext_def)
  next
    case False
    then have "CHR ''/'' \<notin> set (Base p)"
      using spec_base_name_slash [of p] by (simp add: Base_spec)
    then show ?thesis by (rule strip_ext_spec)
  qed
  then have "objectName p = spec_strip_ext (spec_base_name p) @ ''.gzip''"
    by (simp add: objectName_def Let_def Base_spec)
  moreover have "objectName ''data.csv'' = ''data.gzip''"
    by (simp add: objectName_def Base_def Ext_def stripTrailingSlashes.simps)
  moreover have "objectName ''README'' = ''README.gzip''"
    by (simp add: objectName_def Base_def Ext_def stripTrailingSlashes.simps)
  ultimately show ?thesis by simp
qed

text \<open>
  C10. When the base name of the path begins with a dot and contains no other dot, as
  \<^verbatim>\<open>.gitignore\<close> does, the whole base name is taken for the extension and the object name
  is \<^verbatim>\<open>.gzip\<close>: two such files have the same object name.
\<close>

theorem objectName_of_dotfile:
  assumes "Base p = CHR ''.'' # r" and "CHR ''.'' \<notin> set r"
    and "Base p' = CHR ''.'' # r'" and "CHR ''.'' \<notin> set r'"
  shows "objectName p = ''.gzip'' \<and> objectName p' = objectName p"
proof -
  have dot: "objectName q = ''.gzip''" if b: "Base q = CHR ''.'' # t" and t: "CHR ''.'' \<notin> set t"
    for q t
  proof -
    have "CHR ''/'' \<notin> set t"
      using spec_base_name_slash [of q] b by (auto simp: Base_spec)
    with t have "Ext ([] @ CHR ''.'' # t) = CHR ''.'' # t" by (rule Ext_last_dot)
    with b show ?thesis by (simp add: objectName_def Let_def)
  qed
  from dot [OF assms(1,2)] dot [OF assms(3,4)] show ?thesis by simp
qed

theorem objectName_of_dotfile_witness:
  "Base ''/home/u/.gitignore'' = CHR ''.'' # ''gitignore'' \<and> CHR ''.'' \<notin> set ''gitignore'' \<and>
   Base ''.bashrc'' = CHR ''.'' # ''bashrc'' \<and> CHR ''.'' \<notin> set ''bashrc'' \<and>
   objectName ''/home/u/.gitignore'' = ''.gzip'' \<and>
   objectName ''.bashrc'' = objectName ''/home/u/.gitignore''"
proof -
  have 1: "Base ''/home/u/.gitignore'' = CHR ''.'' # ''gitignore''"
    by (simp add: Base_def stripTrailingSlashes.simps)
  have 2: "CHR ''.'' \<notin> set ''gitignore''" by simp
  have 3: "Base ''.bashrc'' = CHR ''.'' # ''bashrc''"
    by (simp add: Base_def stripTrailingSlashes.simps)
  have 4: "CHR ''.'' \<notin> set ''bashrc''" by simp
  from objectName_of_dotfile [OF 1 2 3 4] 1 2 3 4 show ?thesis by simp
qed

subsection \<open>Connecting without configuration\<close>



subsection \<open>The runs of bucket resolution and of Upload\<close>

lemmas ext_defs = Bucket_Attrs_def Bucket_Create_def draw_def log_call_def print_out_def
  Client_Bucket_def Object_NewWriter_def gzip_NewWriter_def gzip_Write_def gzip_Close_def
  Writer_Close_def

lemma setBucket_frame:
  "files (snd (setBucket n w)) = files w \<and> fault (snd (setBucket n w)) = fault w \<and>
   gz (snd (setBucket n w)) = gz w \<and> gz_partial (snd (setBucket n w)) = gz_partial w \<and>
   objects (snd (setBucket n w)) = objects w"
  by (auto simp: setBucket_def ext_defs Let_def split: option.splits)

lemma setBucket_new_calls:
  "\<exists>xs. calls (snd (setBucket n w)) = calls w @ xs \<and>
        (\<forall>s. singleton w = Some s \<longrightarrow>
           set (map fst xs) \<subseteq> {AttrsCall n, CreateCall n (projectID s)}) \<and>
        set (map fst xs) \<subseteq> insert (AttrsCall n) (range (CreateCall n))"
  by (auto simp: setBucket_def ext_defs Let_def split: option.splits)

lemma setBucket_ok:
  assumes "setBucket n w = (Ret None, w1)"
  shows "\<exists>s c. singleton w = Some s \<and> client s = Some c \<and>
           singleton w1 = Some (s\<lparr>bucket := Some (Client_Bucket c n)\<rparr>)"
  using assms
  by (auto simp: setBucket_def ext_defs Let_def split: option.splits if_splits)

lemma setBucket_connected:
  "singleton w = Some s \<Longrightarrow> client s = Some c \<Longrightarrow> \<exists>r. fst (setBucket n w) = Ret r"
  by (auto simp: setBucket_def ext_defs Let_def split: option.splits)

lemma print_out_frame:
  "calls (print_out l w) = calls w" "objects (print_out l w) = objects w"
  by (simp_all add: print_out_def)

lemma Upload_setBucket_error:
  "setBucket bkt w = (Ret (Some e), w1) \<Longrightarrow>
   Upload bkt filename w =
     (Ret (Some e), print_out (''GCS: Error setting bucket '' @ error_string e @ ''\<newline>'') w1)"
  by (simp add: Upload_def)

lemma Upload_read_error:
  "setBucket bkt w = (Ret None, w1) \<Longrightarrow> files w1 filename = Inl e \<Longrightarrow>
   Upload bkt filename w =
     (Ret (Some e),
      print_out (''GCS: Error reading file for upload '' @ error_string e @ ''\<newline>'') w1)"
  by (simp add: Upload_def)

lemma Upload_write_error:
  assumes "setBucket bkt w = (Ret None, w1)" and "files w1 filename = Inr data"
    and "singleton w1 = Some s1" and "bucket s1 = Some b" and "fault w1 (ticks w1) = Some e"
  shows "fst (Upload bkt filename w) = Ret (Some e)"
    and "objects (snd (Upload bkt filename w)) = objects w1"
    and "calls (snd (Upload bkt filename w)) = calls w1 @
           [(NewWriterCall (bh_name b) (objectName filename), None),
            (GzipNewWriterCall (upload_stream (bh_name b) (objectName filename) []), None),
            (GzipWriteCall data, Some e)]"
  using assms
  by (simp_all add: Upload_def ext_defs Let_def upload_stream_def)

lemma Upload_written:
  assumes "setBucket bkt w = (Ret None, w1)" and "files w1 filename = Inr data"
    and "singleton w1 = Some s1" and "bucket s1 = Some b" and "fault w1 (ticks w1) = None"
  shows "fst (Upload bkt filename w) = Ret (fault w1 (Suc (Suc (ticks w1))))"
    and "objects (snd (Upload bkt filename w)) =
           (case fault w1 (Suc (Suc (ticks w1))) of
              Some e \<Rightarrow> objects w1
            | None \<Rightarrow> (objects w1)((bh_name b, objectName filename) \<mapsto>
                \<lparr>ob_type = ''text/plain'', ob_encoding = ''gzip'',
                 ob_data = (case fault w1 (Suc (ticks w1)) of
                              None \<Rightarrow> gz w1 data | Some e \<Rightarrow> gz_partial w1 data)\<rparr>))"
    and "calls (snd (Upload bkt filename w)) = calls w1 @
           [(NewWriterCall (bh_name b) (objectName filename), None),
            (GzipNewWriterCall (upload_stream (bh_name b) (objectName filename) []), None),
            (GzipWriteCall data, None),
            (GzipCloseCall, fault w1 (Suc (ticks w1))),
            (WriterCloseCall (upload_stream (bh_name b) (objectName filename)
               (case fault w1 (Suc (ticks w1)) of
                  None \<Rightarrow> gz w1 data | Some e \<Rightarrow> gz_partial w1 data)),
             fault w1 (Suc (Suc (ticks w1))))]"
  using assms
  by (simp_all add: Upload_def ext_defs Let_def upload_stream_def split: option.splits)

text \<open>
  The runs of \<^verbatim>\<open>Upload\<close>: bucket resolution does not return \<^verbatim>\<open>nil\<close>; the file cannot
  be read; the encoder refuses the data; the data is written and both closes are called.
\<close>

lemma Upload_cases [consumes 0, case_names no_bucket read_error write_error written]:
  obtains
    (no_bucket) r w1 where "setBucket bkt w = (r, w1)" and "r \<noteq> Ret None"
      and "fst (Upload bkt filename w) = r"
      and "calls (snd (Upload bkt filename w)) = calls w1"
      and "objects (snd (Upload bkt filename w)) = objects w"
  | (read_error) w1 e where "setBucket bkt w = (Ret None, w1)" and "files w filename = Inl e"
      and "fst (Upload bkt filename w) = Ret (Some e)"
      and "calls (snd (Upload bkt filename w)) = calls w1"
      and "objects (snd (Upload bkt filename w)) = objects w"
  | (write_error) w1 data e where "setBucket bkt w = (Ret None, w1)"
      and "files w filename = Inr data"
      and "fault w (ticks w1) = Some e"
      and "fst (Upload bkt filename w) = Ret (Some e)"
      and "calls (snd (Upload bkt filename w)) = calls w1 @
           [(NewWriterCall bkt (objectName filename), None),
            (GzipNewWriterCall (upload_stream bkt (objectName filename) []), None),
            (GzipWriteCall data, Some e)]"
      and "objects (snd (Upload bkt filename w)) = objects w"
  | (written) w1 data where "setBucket bkt w = (Ret None, w1)"
      and "files w filename = Inr data"
      and "fault w (ticks w1) = None"
      and "fst (Upload bkt filename w) = Ret (fault w (Suc (Suc (ticks w1))))"
      and "calls (snd (Upload bkt filename w)) = calls w1 @
           [(NewWriterCall bkt (objectName filename), None),
            (GzipNewWriterCall (upload_stream bkt (objectName filename) []), None),
            (GzipWriteCall data, None),
            (GzipCloseCall, fault w (Suc (ticks w1))),
            (WriterCloseCall (upload_stream bkt (objectName filename)
               (case fault w (Suc (ticks w1)) of
                  None \<Rightarrow> gz w data | Some e \<Rightarrow> gz_partial w data)),
             fault w (Suc (Suc (ticks w1))))]"
      and "objects (snd (Upload bkt filename w)) =
           (case fault w (Suc (Suc (ticks w1))) of
              Some e \<Rightarrow> objects w
            | None \<Rightarrow> (objects w)((bkt, objectName filename) \<mapsto>
                \<lparr>ob_type = ''text/plain'', ob_encoding = ''gzip'',
                 ob_data = (case fault w (Suc (ticks w1)) of
                              None \<Rightarrow> gz w data | Some e \<Rightarrow> gz_partial w data)\<rparr>))"
proof -
  obtain r w1 where sb: "setBucket bkt w = (r, w1)"
    by (cases "setBucket bkt w")
  have frame: "files w1 = files w" "fault w1 = fault w" "gz w1 = gz w"
    "gz_partial w1 = gz_partial w" "objects w1 = objects w"
    using setBucket_frame [of bkt w] sb by simp_all
  show thesis
  proof (cases "r = Ret None")
    case False
    have "fst (Upload bkt filename w) = r \<and> calls (snd (Upload bkt filename w)) = calls w1 \<and>
          objects (snd (Upload bkt filename w)) = objects w1"
    proof (cases r)
      case (Ret x)
      with False obtain e where "r = Ret (Some e)" by (cases x) auto
      with sb show ?thesis
        by (simp add: Upload_setBucket_error print_out_frame)
    next
      case (Exit k)
      with sb show ?thesis by (simp add: Upload_def)
    next
      case Panic
      with sb show ?thesis by (simp add: Upload_def)
    qed
    with sb False frame show ?thesis by (intro no_bucket [of r w1]) simp_all
  next
    case True
    with sb have ok: "setBucket bkt w = (Ret None, w1)" by simp
    from setBucket_ok [OF ok] obtain s c where
      s1: "singleton w1 = Some (s\<lparr>bucket := Some (Client_Bucket c bkt)\<rparr>)" by blast
    have b: "bucket (s\<lparr>bucket := Some (Client_Bucket c bkt)\<rparr>) = Some (Client_Bucket c bkt)"
      and n: "bh_name (Client_Bucket c bkt) = bkt"
      by (simp_all add: Client_Bucket_def)
    show ?thesis
    proof (cases "files w filename")
      case (Inl e)
      then have "files w1 filename = Inl e" by (simp add: frame)
      from Upload_read_error [OF ok this] Inl ok frame show ?thesis
        by (intro read_error [of w1 e]) (simp_all add: print_out_frame)
    next
      case (Inr data)
      then have f: "files w1 filename = Inr data" by (simp add: frame)
      show ?thesis
      proof (cases "fault w1 (ticks w1)")
        case (Some e)
        from Upload_write_error [OF ok f s1 b Some] Some Inr ok frame n show ?thesis
          by (intro write_error [of w1 data e]) simp_all
      next
        case None
        from Upload_written [OF ok f s1 b None] None Inr ok frame n show ?thesis
          by (intro written [of w1 data]) (simp_all split: option.splits)
      qed
    qed
  qed
qed

text \<open>The concrete worlds, evaluated.\<close>

lemma toy_roundtrip: "toy_gunzip (toy_gz d) = Some d"
  by (simp add: toy_gunzip_def toy_gz_def)

lemma started_eq:
  "flt 0 = None \<Longrightarrow> started flt =
     \<lparr>singleton = Some \<lparr>projectID = ''proj'', bucketName = [], bucket = None,
                        client = Some 0, ctx = Some Background\<rparr>,
      once = True, nhandles = 1, environ = env_ok, files = fs1, fault = flt,
      ticks = 1, gz = toy_gz, gz_partial = toy_partial, nclients = 1,
      buckets = Map.empty, objects = Map.empty, calls = [(NewClientCall, None)],
      stdout = [], stderr = []\<rparr>"
  by (simp add: started_def Connect_def fresh_def env_ok_def Getenv_def createClient_def
      storage_NewClient_def draw_def log_call_def Let_def)

lemma objectName_notes: "objectName ''notes.txt'' = ''notes.gzip''"
  by (simp add: objectName_def Base_def Ext_def stripTrailingSlashes.simps)

lemma setBucket_fresh_bucket:
  "setBucket ''my-bucket'' (started (fault_at 4 r)) =
     (Ret None,
      (started (fault_at 4 r))\<lparr>singleton := Some \<lparr>projectID = ''proj'', bucketName = [],
                         bucket = Some \<lparr>bh_client = 0, bh_name = ''my-bucket''\<rparr>,
                         client = Some 0, ctx = Some Background\<rparr>,
                     ticks := 3,
                     buckets := [''my-bucket'' \<mapsto> ''proj''],
                     calls := [(NewClientCall, None),
                               (AttrsCall ''my-bucket'', Some ErrBucketNotExist),
                               (CreateCall ''my-bucket'' ''proj'', None)],
                     stdout := [''Creating bucket my-bucket\<newline>'']\<rparr>)"
  by (simp add: started_eq setBucket_def ext_defs Let_def numeral_3_eq_3 fault_at_def)

lemma Upload_run:
  "fst (Upload ''my-bucket'' ''notes.txt'' (started (fault_at 4 r))) = Ret None"
  "objects (snd (Upload ''my-bucket'' ''notes.txt'' (started (fault_at 4 r))))
     (''my-bucket'', ''notes.gzip'')
   = Some \<lparr>ob_type = ''text/plain'', ob_encoding = ''gzip'',
           ob_data = (case r of None \<Rightarrow> ''GZhello!'' | Some e \<Rightarrow> ''GZ'')\<rparr>"
  "new_calls (started (fault_at 4 r))
     (snd (Upload ''my-bucket'' ''notes.txt'' (started (fault_at 4 r)))) =
     [(AttrsCall ''my-bucket'', Some ErrBucketNotExist),
      (CreateCall ''my-bucket'' ''proj'', None),
      (NewWriterCall ''my-bucket'' ''notes.gzip'', None),
      (GzipNewWriterCall \<lparr>wr_bucket = ''my-bucket'', wr_object = ''notes.gzip'',
         ContentType = ''text/plain'', ContentEncoding = ''gzip'', wr_data = []\<rparr>, None),
      (GzipWriteCall ''hello'', None),
      (GzipCloseCall, r),
      (WriterCloseCall \<lparr>wr_bucket = ''my-bucket'', wr_object = ''notes.gzip'',
         ContentType = ''text/plain'', ContentEncoding = ''gzip'',
         wr_data = (case r of None \<Rightarrow> ''GZhello!'' | Some e \<Rightarrow> ''GZ'')\<rparr>, None)]"
proof -
  define flt where "flt = fault_at 4 r"
  define W1 where "W1 = snd (setBucket ''my-bucket'' (started flt))"
  have sb: "setBucket ''my-bucket'' (started flt) = (Ret None, W1)"
    unfolding W1_def flt_def by (simp add: setBucket_fresh_bucket)
  have W1: "files W1 ''notes.txt'' = Inr ''hello''"
    "singleton W1 = Some \<lparr>projectID = ''proj'', bucketName = [],
        bucket = Some \<lparr>bh_client = 0, bh_name = ''my-bucket''\<rparr>,
        client = Some 0, ctx = Some Background\<rparr>"
    "ticks W1 = 3" "fault W1 = flt" "gz W1 = toy_gz" "gz_partial W1 = toy_partial"
    "objects W1 = Map.empty"
    "calls W1 = calls (started flt) @ [(AttrsCall ''my-bucket'', Some ErrBucketNotExist),
        (CreateCall ''my-bucket'' ''proj'', None)]"
    using arg_cong [OF setBucket_fresh_bucket [of r], of snd]
    by (simp_all add: W1_def flt_def started_eq fs1_def fault_at_def)
  have flt: "flt 3 = None" "flt 5 = None" "flt 4 = r"
    by (simp_all add: flt_def fault_at_def)
  have t: "Suc (Suc 3) = 5" "Suc 3 = 4"
    by simp_all
  note U = Upload_written [OF sb W1(1) W1(2), of "\<lparr>bh_client = 0, bh_name = ''my-bucket''\<rparr>",
      unfolded W1 t flt objectName_notes upload_stream_def]
  show "fst (Upload ''my-bucket'' ''notes.txt'' (started (fault_at 4 r))) = Ret None"
    using U(1) by (simp add: flt_def fault_at_def)
  show "objects (snd (Upload ''my-bucket'' ''notes.txt'' (started (fault_at 4 r))))
     (''my-bucket'', ''notes.gzip'')
   = Some \<lparr>ob_type = ''text/plain'', ob_encoding = ''gzip'',
           ob_data = (case r of None \<Rightarrow> ''GZhello!'' | Some e \<Rightarrow> ''GZ'')\<rparr>"
    using U(2) by (simp add: flt_def fault_at_def toy_gz_def toy_partial_def split: option.splits)
  show "new_calls (started (fault_at 4 r))
     (snd (Upload ''my-bucket'' ''notes.txt'' (started (fault_at 4 r)))) =
     [(AttrsCall ''my-bucket'', Some ErrBucketNotExist),
      (CreateCall ''my-bucket'' ''proj'', None),
      (NewWriterCall ''my-bucket'' ''notes.gzip'', None),
      (GzipNewWriterCall \<lparr>wr_bucket = ''my-bucket'', wr_object = ''notes.gzip'',
         ContentType = ''text/plain'', ContentEncoding = ''gzip'', wr_data = []\<rparr>, None),
      (GzipWriteCall ''hello'', None),
      (GzipCloseCall, r),
      (WriterCloseCall \<lparr>wr_bucket = ''my-bucket'', wr_object = ''notes.gzip'',
         ContentType = ''text/plain'', ContentEncoding = ''gzip'',
         wr_data = (case r of None \<Rightarrow> ''GZhello!'' | Some e \<Rightarrow> ''GZ'')\<rparr>, None)]"
    using U(3) by (simp add: flt_def fault_at_def new_calls_def toy_gz_def toy_partial_def split: option.splits)
qed

subsection \<open>Bucket resolution\<close>

text \<open>
  C1. In a connected process, \<^verbatim>\<open>setBucket\<close> first checks that the bucket exists. When
  the check answers \<^verbatim>\<open>ErrBucketNotExist\<close>, one creation call under the configured project
  follows, and when the service creates the bucket it is bound into the singleton and
  \<^verbatim>\<open>nil\<close> is returned. When the check fails with any other error \<open>e\<close>, \<^verbatim>\<open>setBucket\<close>
  returns \<open>e\<close> itself after that one call: no creation call, the buckets of the service
  and the singleton unchanged; and \<^verbatim>\<open>Upload\<close> returns the same \<open>e\<close> with the same effects.
\<close>

theorem setBucket_creates_or_propagates:
  assumes "singleton w = Some s" and "client s = Some c"
  shows "(fst (Bucket_Attrs (Client_Bucket c name) w) = Some ErrBucketNotExist \<longrightarrow>
            map fst (new_calls w (snd (setBucket name w))) =
              [AttrsCall name, CreateCall name (projectID s)] \<and>
            (fault w (Suc (ticks w)) = None \<and> buckets w name = None \<longrightarrow>
               fst (setBucket name w) = Ret None \<and>
               buckets (snd (setBucket name w)) = (buckets w)(name \<mapsto> projectID s) \<and>
               singleton (snd (setBucket name w)) =
                 Some (s\<lparr>bucket := Some (Client_Bucket c name)\<rparr>))) \<and>
         (fst (Bucket_Attrs (Client_Bucket c name) w) = Some e \<and> e \<noteq> ErrBucketNotExist \<longrightarrow>
            fst (setBucket name w) = Ret (Some e) \<and>
            map fst (new_calls w (snd (setBucket name w))) = [AttrsCall name] \<and>
            buckets (snd (setBucket name w)) = buckets w \<and>
            singleton (snd (setBucket name w)) = singleton w \<and>
            fst (Upload name filename w) = Ret (Some e) \<and>
            map fst (new_calls w (snd (Upload name filename w))) = [AttrsCall name] \<and>
            buckets (snd (Upload name filename w)) = buckets w \<and>
            singleton (snd (Upload name filename w)) = singleton w)"
  using assms
  by (auto simp: setBucket_def Upload_def ext_defs new_calls_def Let_def split: option.splits)

theorem setBucket_creates_or_propagates_witness:
  "singleton (started no_fault) =
     Some \<lparr>projectID = ''proj'', bucketName = [], bucket = None, client = Some 0,
           ctx = Some Background\<rparr> \<and>
   fst (Bucket_Attrs (Client_Bucket 0 ''my-bucket'') (started no_fault)) = Some ErrBucketNotExist \<and>
   fault (started no_fault) (Suc (ticks (started no_fault))) = None \<and>
   buckets (started no_fault) ''my-bucket'' = None \<and>
   map fst (new_calls (started no_fault) (snd (setBucket ''my-bucket'' (started no_fault)))) =
     [AttrsCall ''my-bucket'', CreateCall ''my-bucket'' ''proj''] \<and>
   fst (setBucket ''my-bucket'' (started no_fault)) = Ret None \<and>
   buckets (snd (setBucket ''my-bucket'' (started no_fault))) ''my-bucket'' = Some ''proj'' \<and>
   map_option bucket (singleton (snd (setBucket ''my-bucket'' (started no_fault)))) =
     Some (Some (Client_Bucket 0 ''my-bucket'')) \<and>
   fst (Bucket_Attrs (Client_Bucket 0 ''my-bucket'')
          (started attrs_forbidden)) =
     Some (Err ''googleapi: Error 403: Forbidden'') \<and>
   fst (setBucket ''my-bucket'' (started attrs_forbidden)) =
     Ret (Some (Err ''googleapi: Error 403: Forbidden'')) \<and>
   fst (Upload ''my-bucket'' ''notes.txt''
          (started attrs_forbidden)) =
     Ret (Some (Err ''googleapi: Error 403: Forbidden'')) \<and>
   buckets (snd (Upload ''my-bucket'' ''notes.txt''
          (started attrs_forbidden))) ''my-bucket'' = None"
proof -
  let ?s = "\<lparr>projectID = ''proj'', bucketName = [], bucket = None, client = Some 0,
             ctx = Some Background\<rparr>"
  let ?e = "Err ''googleapi: Error 403: Forbidden''"
  have a: "singleton (started no_fault) = Some ?s" "client ?s = Some 0"
    "fst (Bucket_Attrs (Client_Bucket 0 ''my-bucket'') (started no_fault)) = Some ErrBucketNotExist"
    "fault (started no_fault) (Suc (ticks (started no_fault))) = None"
    "buckets (started no_fault) ''my-bucket'' = None"
    by (simp_all add: started_eq no_fault_def fault_at_def ext_defs)
  have b: "singleton (started attrs_forbidden) = Some ?s"
    "fst (Bucket_Attrs (Client_Bucket 0 ''my-bucket'') (started attrs_forbidden)) = Some ?e"
    "?e \<noteq> ErrBucketNotExist"
    "buckets (started attrs_forbidden) ''my-bucket'' = None"
    by (simp_all add: started_eq attrs_forbidden_def fault_at_def ext_defs)
  from setBucket_creates_or_propagates [OF a(1,2), of "''my-bucket''" ?e "''notes.txt''"]
    setBucket_creates_or_propagates [OF b(1) a(2), of "''my-bucket''" ?e "''notes.txt''"]
  show ?thesis
    by (simp add: a b)
qed

text \<open>
  C5. In a connected process, for a bucket that the service does not have, and with no
  call failing: \<^verbatim>\<open>setBucket\<close> makes the existence check and exactly one creation call and
  returns \<^verbatim>\<open>nil\<close>; a second \<^verbatim>\<open>setBucket\<close> with the same name makes the existence check
  only, binds the bucket and returns \<^verbatim>\<open>nil\<close>, and the buckets of the service stay as
  they are.
\<close>

theorem setBucket_creates_once:
  assumes "singleton w = Some s" and "client s = Some c" and "buckets w name = None"
    and "fault w (ticks w) = None" and "fault w (ticks w + 1) = None"
    and "fault w (ticks w + 2) = None"
  shows "fst (setBucket name w) = Ret None \<and>
         new_calls w (snd (setBucket name w)) =
           [(AttrsCall name, Some ErrBucketNotExist), (CreateCall name (projectID s), None)] \<and>
         fst (setBucket name (snd (setBucket name w))) = Ret None \<and>
         new_calls (snd (setBucket name w)) (snd (setBucket name (snd (setBucket name w)))) =
           [(AttrsCall name, None)] \<and>
         buckets (snd (setBucket name (snd (setBucket name w)))) =
           buckets (snd (setBucket name w)) \<and>
         singleton (snd (setBucket name (snd (setBucket name w)))) =
           Some (s\<lparr>bucket := Some (Client_Bucket c name)\<rparr>)"
  using assms
  by (auto simp: setBucket_def ext_defs new_calls_def Let_def split: option.splits)

theorem setBucket_creates_once_witness:
  "buckets (started no_fault) ''my-bucket'' = None \<and>
   fault (started no_fault) (ticks (started no_fault)) = None \<and>
   fault (started no_fault) (ticks (started no_fault) + 1) = None \<and>
   fault (started no_fault) (ticks (started no_fault) + 2) = None \<and>
   fst (setBucket ''my-bucket'' (started no_fault)) = Ret None \<and>
   new_calls (started no_fault) (snd (setBucket ''my-bucket'' (started no_fault))) =
     [(AttrsCall ''my-bucket'', Some ErrBucketNotExist), (CreateCall ''my-bucket'' ''proj'', None)] \<and>
   fst (setBucket ''my-bucket'' (snd (setBucket ''my-bucket'' (started no_fault)))) = Ret None \<and>
   new_calls (snd (setBucket ''my-bucket'' (started no_fault)))
     (snd (setBucket ''my-bucket'' (snd (setBucket ''my-bucket'' (started no_fault))))) =
     [(AttrsCall ''my-bucket'', None)]"
proof -
  let ?s = "\<lparr>projectID = ''proj'', bucketName = [], bucket = None, client = Some 0,
             ctx = Some Background\<rparr>"
  have a: "singleton (started no_fault) = Some ?s" "client ?s = Some 0"
    "buckets (started no_fault) ''my-bucket'' = None"
    "fault (started no_fault) (ticks (started no_fault)) = None"
    "fault (started no_fault) (ticks (started no_fault) + 1) = None"
    "fault (started no_fault) (ticks (started no_fault) + 2) = None"
    by (simp_all add: started_eq no_fault_def fault_at_def)
  from setBucket_creates_once [OF a] a show ?thesis
    by simp
qed

subsection \<open>Connecting twice\<close>




subsection \<open>Uploading\<close>

lemma setBucket_calls_bucket_only:
  assumes "setBucket n w = (r, w1)"
  obtains xs where "calls w1 = calls w @ xs"
    and "\<And>wr r. (GzipNewWriterCall wr, r) \<notin> set xs"
    and "\<And>wr r. (WriterCloseCall wr, r) \<notin> set xs"
    and "\<And>b m r. (NewWriterCall b m, r) \<notin> set xs"
    and "\<And>r. (GzipCloseCall, r) \<notin> set xs"
    and "\<And>d r. (GzipWriteCall d, r) \<notin> set xs"
proof -
  from setBucket_new_calls [of n w] assms obtain xs where
    xs: "calls w1 = calls w @ xs"
    and sub: "set (map fst xs) \<subseteq> insert (AttrsCall n) (range (CreateCall n))"
    by auto
  have "c = AttrsCall n \<or> (\<exists>p. c = CreateCall n p)" if "(c, r) \<in> set xs" for c r
  proof -
    from that have "c \<in> set (map fst xs)" by force
    with sub show ?thesis by auto
  qed
  then have "(GzipNewWriterCall wr, r) \<notin> set xs" "(WriterCloseCall wr, r) \<notin> set xs"
    "(NewWriterCall b m, r) \<notin> set xs" "(GzipCloseCall, r) \<notin> set xs"
    "(GzipWriteCall d, r) \<notin> set xs" for wr r b m d
    by blast+
  with xs show thesis by (rule that)
qed


lemma no_fault_eq: "no_fault = fault_at 4 None"
  by (simp add: no_fault_def fault_at_def fun_eq_iff)

text \<open>
  C7. Whatever the bucket, the file and the state of the world: every write stream that
  \<^verbatim>\<open>Upload\<close> hands to the encoder or closes carries the content type \<^verbatim>\<open>text/plain\<close> and
  the content encoding \<^verbatim>\<open>gzip\<close>; a stream that \<^verbatim>\<open>Upload\<close> opens is handed to the encoder
  with these two attributes before any byte is written; and an object that \<^verbatim>\<open>Upload\<close>
  stores or replaces has them.
\<close>

theorem Upload_stream_attributes:
  "((GzipNewWriterCall wr, r) \<in> set (new_calls w (snd (Upload bkt filename w))) \<or>
    (WriterCloseCall wr, r) \<in> set (new_calls w (snd (Upload bkt filename w))) \<longrightarrow>
      ContentType wr = ''text/plain'' \<and> ContentEncoding wr = ''gzip'') \<and>
   ((NewWriterCall b n, r') \<in> set (new_calls w (snd (Upload bkt filename w))) \<longrightarrow>
      (GzipNewWriterCall \<lparr>wr_bucket = b, wr_object = n, ContentType = ''text/plain'',
                          ContentEncoding = ''gzip'', wr_data = []\<rparr>, None)
        \<in> set (new_calls w (snd (Upload bkt filename w)))) \<and>
   (objects (snd (Upload bkt filename w)) key = Some ob \<and> objects w key \<noteq> Some ob \<longrightarrow>
      ob_type ob = ''text/plain'' \<and> ob_encoding ob = ''gzip'')"
proof (cases rule: Upload_cases [of bkt w filename])
  case (no_bucket r0 w1)
  from setBucket_calls_bucket_only [OF no_bucket(1)] obtain xs where
    xs: "calls w1 = calls w @ xs" "\<And>wr r. (GzipNewWriterCall wr, r) \<notin> set xs"
      "\<And>wr r. (WriterCloseCall wr, r) \<notin> set xs" "\<And>b m r. (NewWriterCall b m, r) \<notin> set xs"
    by metis
  have "new_calls w (snd (Upload bkt filename w)) = xs"
    using xs(1) no_bucket(4) by (simp add: new_calls_def)
  with xs(2-4) no_bucket(5) show ?thesis by simp
next
  case (read_error w1 e)
  from setBucket_calls_bucket_only [OF read_error(1)] obtain xs where
    xs: "calls w1 = calls w @ xs" "\<And>wr r. (GzipNewWriterCall wr, r) \<notin> set xs"
      "\<And>wr r. (WriterCloseCall wr, r) \<notin> set xs" "\<And>b m r. (NewWriterCall b m, r) \<notin> set xs"
    by metis
  have "new_calls w (snd (Upload bkt filename w)) = xs"
    using xs(1) read_error(4) by (simp add: new_calls_def)
  with xs(2-4) read_error(5) show ?thesis by simp
next
  case (write_error w1 data e)
  from setBucket_calls_bucket_only [OF write_error(1)] obtain xs where
    xs: "calls w1 = calls w @ xs" "\<And>wr r. (GzipNewWriterCall wr, r) \<notin> set xs"
      "\<And>wr r. (WriterCloseCall wr, r) \<notin> set xs" "\<And>b m r. (NewWriterCall b m, r) \<notin> set xs"
    by metis
  have "new_calls w (snd (Upload bkt filename w)) = xs @
           [(NewWriterCall bkt (objectName filename), None),
            (GzipNewWriterCall (upload_stream bkt (objectName filename) []), None),
            (GzipWriteCall data, Some e)]"
    using xs(1) write_error(5) by (simp add: new_calls_def)
  with xs(2-4) write_error(6) show ?thesis
    by (simp add: upload_stream_def)
next
  case (written w1 data)
  from setBucket_calls_bucket_only [OF written(1)] obtain xs where
    xs: "calls w1 = calls w @ xs" "\<And>wr r. (GzipNewWriterCall wr, r) \<notin> set xs"
      "\<And>wr r. (WriterCloseCall wr, r) \<notin> set xs" "\<And>b m r. (NewWriterCall b m, r) \<notin> set xs"
    by metis
  have new: "new_calls w (snd (Upload bkt filename w)) = xs @
           [(NewWriterCall bkt (objectName filename), None),
            (GzipNewWriterCall (upload_stream bkt (objectName filename) []), None),
            (GzipWriteCall data, None),
            (GzipCloseCall, fault w (Suc (ticks w1))),
            (WriterCloseCall (upload_stream bkt (objectName filename)
               (case fault w (Suc (ticks w1)) of
                  None \<Rightarrow> gz w data | Some e \<Rightarrow> gz_partial w data)),
             fault w (Suc (Suc (ticks w1))))]"
    using xs(1) written(5) by (simp add: new_calls_def)
  have "ob_type ob = ''text/plain'' \<and> ob_encoding ob = ''gzip''"
    if "objects (snd (Upload bkt filename w)) key = Some ob" "objects w key \<noteq> Some ob"
    using that unfolding written(6) by (auto split: option.splits if_splits)
  with xs(2-4) show ?thesis
    unfolding new by (auto simp: upload_stream_def)
qed


theorem Upload_stream_attributes_witness:
  "(GzipNewWriterCall (upload_stream ''my-bucket'' ''notes.gzip'' []), None)
     \<in> set (new_calls (started no_fault) (snd (Upload ''my-bucket'' ''notes.txt'' (started no_fault)))) \<and>
   ContentType (upload_stream ''my-bucket'' ''notes.gzip'' []) = ''text/plain'' \<and>
   ContentEncoding (upload_stream ''my-bucket'' ''notes.gzip'' []) = ''gzip'' \<and>
   (NewWriterCall ''my-bucket'' ''notes.gzip'', None)
     \<in> set (new_calls (started no_fault) (snd (Upload ''my-bucket'' ''notes.txt'' (started no_fault)))) \<and>
   objects (snd (Upload ''my-bucket'' ''notes.txt'' (started no_fault))) (''my-bucket'', ''notes.gzip'') =
     Some \<lparr>ob_type = ''text/plain'', ob_encoding = ''gzip'', ob_data = ''GZhello!''\<rparr> \<and>
   objects (started no_fault) (''my-bucket'', ''notes.gzip'') = None"
proof -
  note run = Upload_run [of None, folded no_fault_eq]
  have o: "objects (started no_fault) (''my-bucket'', ''notes.gzip'') = None"
    by (simp add: started_eq no_fault_def fault_at_def)
  have 1: "(GzipNewWriterCall (upload_stream ''my-bucket'' ''notes.gzip'' []), None)
     \<in> set (new_calls (started no_fault) (snd (Upload ''my-bucket'' ''notes.txt'' (started no_fault))))"
    and 2: "(NewWriterCall ''my-bucket'' ''notes.gzip'', None)
     \<in> set (new_calls (started no_fault) (snd (Upload ''my-bucket'' ''notes.txt'' (started no_fault))))"
    unfolding run(3) by (simp_all add: upload_stream_def)
  have 3: "objects (snd (Upload ''my-bucket'' ''notes.txt'' (started no_fault))) (''my-bucket'', ''notes.gzip'') =
     Some \<lparr>ob_type = ''text/plain'', ob_encoding = ''gzip'', ob_data = ''GZhello!''\<rparr>"
    unfolding run(2) by simp
  from Upload_stream_attributes [of "upload_stream ''my-bucket'' ''notes.gzip'' []" None
      "started no_fault" "''my-bucket''" "''notes.txt''" "''my-bucket''" "''notes.gzip''" None
      "(''my-bucket'', ''notes.gzip'')"
      "\<lparr>ob_type = ''text/plain'', ob_encoding = ''gzip'', ob_data = ''GZhello!''\<rparr>"]
    1 2 3 o
  show ?thesis
    by blast
qed

text \<open>
  C8. In a connected process, when the file cannot be read (it is missing, unreadable or
  a directory, so that \<^verbatim>\<open>ioutil.ReadFile\<close> returns an error \<open>e\<close>): \<^verbatim>\<open>Upload\<close> returns an
  error, which is \<open>e\<close> itself once bucket resolution has succeeded; the world it leaves
  is the world after bucket resolution with one more line on the console; so no write
  stream is opened, no byte is written, the objects of the service are unchanged, and
  the only calls made are those of bucket resolution.
\<close>

theorem Upload_unreadable_file:
  assumes "singleton w = Some s" and "client s = Some c" and "files w filename = Inl e"
  shows "(fst (setBucket bkt w) = Ret None \<longrightarrow> fst (Upload bkt filename w) = Ret (Some e)) \<and>
         (\<exists>e'. fst (Upload bkt filename w) = Ret (Some e')) \<and>
         (\<exists>line. snd (Upload bkt filename w) = print_out line (snd (setBucket bkt w))) \<and>
         objects (snd (Upload bkt filename w)) = objects w \<and>
         set (map fst (new_calls w (snd (Upload bkt filename w))))
           \<subseteq> {AttrsCall bkt, CreateCall bkt (projectID s)}"
proof -
  obtain r w1 where sb: "setBucket bkt w = (Ret r, w1)"
    using setBucket_connected [OF assms(1,2), of bkt] by (cases "setBucket bkt w") auto
  have f: "files w1 filename = Inl e"
    using setBucket_frame [of bkt w] sb assms(3) by simp
  have o: "objects w1 = objects w"
    using setBucket_frame [of bkt w] sb by simp
  from setBucket_new_calls [of bkt w] sb assms(1) obtain xs where
    xs: "calls w1 = calls w @ xs" "set (map fst xs) \<subseteq> {AttrsCall bkt, CreateCall bkt (projectID s)}"
    by auto
  show ?thesis
  proof (cases r)
    case None
    with sb have "setBucket bkt w = (Ret None, w1)" by simp
    from Upload_read_error [OF this f] sb o xs show ?thesis
      by (auto simp: print_out_frame new_calls_def)
  next
    case (Some e0)
    with sb have "setBucket bkt w = (Ret (Some e0), w1)" by simp
    from Upload_setBucket_error [OF this] sb Some o xs show ?thesis
      by (auto simp: print_out_frame new_calls_def)
  qed
qed

theorem Upload_unreadable_file_witness:
  "files (started no_fault) ''missing.txt'' =
     Inl (Err ''open missing.txt: no such file or directory'') \<and>
   fst (setBucket ''my-bucket'' (started no_fault)) = Ret None \<and>
   fst (Upload ''my-bucket'' ''missing.txt'' (started no_fault)) =
     Ret (Some (Err ''open missing.txt: no such file or directory'')) \<and>
   objects (snd (Upload ''my-bucket'' ''missing.txt'' (started no_fault))) =
     objects (started no_fault) \<and>
   set (map fst (new_calls (started no_fault)
                   (snd (Upload ''my-bucket'' ''missing.txt'' (started no_fault)))))
     \<subseteq> {AttrsCall ''my-bucket'', CreateCall ''my-bucket'' ''proj''}"
proof -
  let ?s = "\<lparr>projectID = ''proj'', bucketName = [], bucket = None, client = Some 0,
             ctx = Some Background\<rparr>"
  have a: "singleton (started no_fault) = Some ?s" "client ?s = Some 0"
    "files (started no_fault) ''missing.txt'' =
       Inl (Err ''open missing.txt: no such file or directory'')"
    by (simp_all add: started_eq no_fault_def fault_at_def fs1_def)
  have b: "fst (setBucket ''my-bucket'' (started no_fault)) = Ret None"
    by (simp add: setBucket_fresh_bucket [of None, folded no_fault_eq])
  from Upload_unreadable_file [OF a, of "''my-bucket''"] a b show ?thesis
    by simp
qed

text \<open>
  What the upload stores when nothing is dropped. When \<^verbatim>\<open>Upload\<close> returns \<^verbatim>\<open>nil\<close> for a
  file of content \<open>data\<close>, and closing the encoder has reported no error, then the whole
  of \<open>data\<close> went to the encoder in one write, the object stored under the bucket and the
  derived name holds the gzip stream of \<open>data\<close>, and any decoder that inverts the encoder
  gives \<open>data\<close> back from it.
\<close>

lemma Upload_stores_gzip_of_file:
  assumes "fst (Upload bkt filename w) = Ret None" and "files w filename = Inr data"
    and "(GzipCloseCall, None) \<in> set (new_calls w (snd (Upload bkt filename w)))"
    and "\<forall>d. gunzip (gz w d) = Some d"
  shows "(GzipWriteCall data, None) \<in> set (new_calls w (snd (Upload bkt filename w))) \<and>
         map_option ob_data (objects (snd (Upload bkt filename w)) (bkt, objectName filename))
           = Some (gz w data) \<and>
         Option.bind (objects (snd (Upload bkt filename w)) (bkt, objectName filename))
           (\<lambda>ob. gunzip (ob_data ob)) = Some data"
proof (cases rule: Upload_cases [of bkt w filename])
  case (no_bucket r w1)
  with assms(1) show ?thesis by simp
next
  case (read_error w1 e)
  with assms(2) show ?thesis by simp
next
  case (write_error w1 d e)
  with assms(1) show ?thesis by simp
next
  case (written w1 d)
  from setBucket_calls_bucket_only [OF written(1)] obtain xs where
    xs: "calls w1 = calls w @ xs" "\<And>r. (GzipCloseCall, r) \<notin> set xs"
    by metis
  have d: "d = data" using written(2) assms(2) by simp
  have close: "fault w (Suc (Suc (ticks w1))) = None"
    using written(4) assms(1) by simp
  have new: "new_calls w (snd (Upload bkt filename w)) = xs @
           [(NewWriterCall bkt (objectName filename), None),
            (GzipNewWriterCall (upload_stream bkt (objectName filename) []), None),
            (GzipWriteCall data, None),
            (GzipCloseCall, fault w (Suc (ticks w1))),
            (WriterCloseCall (upload_stream bkt (objectName filename)
               (case fault w (Suc (ticks w1)) of
                  None \<Rightarrow> gz w data | Some e \<Rightarrow> gz_partial w data)),
             fault w (Suc (Suc (ticks w1))))]"
    using xs(1) written(5) [unfolded d] by (simp add: new_calls_def)
  have enc: "fault w (Suc (ticks w1)) = None"
    using assms(3) xs(2) unfolding new by auto
  have "(GzipWriteCall data, None) \<in> set (new_calls w (snd (Upload bkt filename w)))"
    unfolding new by simp
  moreover have "objects (snd (Upload bkt filename w)) (bkt, objectName filename) =
      Some \<lparr>ob_type = ''text/plain'', ob_encoding = ''gzip'', ob_data = gz w data\<rparr>"
    unfolding written(6) [unfolded d] by (simp add: close enc)
  ultimately show ?thesis using assms(4) by simp
qed

lemma Upload_stores_gzip_of_file_example:
  "fst (Upload ''my-bucket'' ''notes.txt'' (started no_fault)) = Ret None \<and>
   files (started no_fault) ''notes.txt'' = Inr ''hello'' \<and>
   (GzipCloseCall, None)
     \<in> set (new_calls (started no_fault) (snd (Upload ''my-bucket'' ''notes.txt'' (started no_fault)))) \<and>
   gz (started no_fault) ''hello'' = ''GZhello!'' \<and>
   toy_gunzip ''GZhello!'' = Some ''hello'' \<and>
   map_option ob_data
     (objects (snd (Upload ''my-bucket'' ''notes.txt'' (started no_fault))) (''my-bucket'', ''notes.gzip''))
     = Some ''GZhello!'' \<and>
   Option.bind
     (objects (snd (Upload ''my-bucket'' ''notes.txt'' (started no_fault))) (''my-bucket'', ''notes.gzip''))
     (\<lambda>ob. toy_gunzip (ob_data ob)) = Some ''hello''"
proof -
  note run = Upload_run [of None, folded no_fault_eq]
  have a1: "fst (Upload ''my-bucket'' ''notes.txt'' (started no_fault)) = Ret None"
    by (rule run(1))
  have a2: "files (started no_fault) ''notes.txt'' = Inr ''hello''"
    by (simp add: started_eq no_fault_def fault_at_def fs1_def)
  have a3: "(GzipCloseCall, None)
       \<in> set (new_calls (started no_fault) (snd (Upload ''my-bucket'' ''notes.txt'' (started no_fault))))"
    unfolding run(3) by simp
  have a4: "\<forall>d. toy_gunzip (gz (started no_fault) d) = Some d"
    by (simp add: started_eq no_fault_def fault_at_def toy_roundtrip)
  note a = a1 a2 a3 a4
  have g: "gz (started no_fault) ''hello'' = ''GZhello!''" "toy_gunzip ''GZhello!'' = Some ''hello''"
    by (simp_all add: started_eq no_fault_def fault_at_def toy_gz_def toy_gunzip_def)
  have n: "objectName ''notes.txt'' = ''notes.gzip''"
    by (rule objectName_notes)
  from Upload_stores_gzip_of_file [OF a] a(1-3) g show ?thesis
    by (simp add: n)
qed



end
